theory Spec2Isabelle
  imports Main
begin

section \<open>JavaScript values, objects and errors\<close>

text \<open>
  The commands work on the object that yargs hands to a handler. A property of that
  object holds a string, a boolean or a number, or is \<open>undefined\<close>. An object is a
  finite map from property names to values; reading a property that the object does not
  own gives \<open>undefined\<close>, as in JavaScript.
\<close>

datatype jsval = Undefined | Str string | Bool bool | Num int

type_synonym Arguments = "string \<rightharpoonup> jsval"

definition jsprop :: "Arguments \<Rightarrow> string \<Rightarrow> jsval" where
  "jsprop argv k = (case argv k of None \<Rightarrow> Undefined | Some v \<Rightarrow> v)"

text \<open>\<open>Object.assign(target, ...sources)\<close>: the sources' own properties are copied
  onto the target from left to right, a later source overriding an earlier one.\<close>

definition Object_assign :: "Arguments \<Rightarrow> Arguments list \<Rightarrow> Arguments" where
  "Object_assign target sources = foldl (++) target sources"

text \<open>A rejected promise carries the value thrown. \<open>TypeError\<close> is what the runtime
  throws when a property of \<open>undefined\<close> is read; \<open>Thrown\<close> is an error raised by a
  collaborator (the mutex, the GitOps service, the cluster), named by its message.\<close>

datatype error = TypeError | Thrown string

section \<open>commands/support/gitops-module-common.ts\<close>

text \<open>The logger that \<open>verboseLoggerFactory(argv.debug)\<close> builds, and the two mutex
  classes of \<open>util/mutex\<close> with the arguments of their constructors.\<close>

datatype Logger = VerboseLogger jsval

datatype IMutex = Mutex jsval string Logger | NoopMutex

text \<open>The implementation the container resolves for \<open>GitOpsModuleApi\<close>: the one
  registered before the handler runs, or \<open>GitopsModulePRImpl\<close> once the handler has
  bound it.\<close>

datatype GitOpsModuleApi = RegisteredImpl | GitopsModulePRImpl

record Container =
  loggerFactory :: "jsval option"
  gitOpsModuleApi :: GitOpsModuleApi

definition Container_get_Logger :: "Container \<Rightarrow> Logger" where
  "Container_get_Logger c =
     (case loggerFactory c of None \<Rightarrow> VerboseLogger Undefined | Some d \<Rightarrow> VerboseLogger d)"

text \<open>
  The collaborators of the handler, whose code is outside this file: \<open>mutex.claim\<close>
  resolves to a claimed mutex \<open>'c\<close> or rejects, \<open>claim.release\<close> and
  \<open>service.populate\<close> resolve or reject.
\<close>

record 'c collaborators =
  mutex_claim :: "IMutex \<Rightarrow> jsval \<times> jsval \<times> jsval \<Rightarrow> error + 'c"
  claim_release :: "'c \<Rightarrow> error + unit"
  service_populate :: "GitOpsModuleApi \<Rightarrow> Arguments \<Rightarrow> error + unit"

text \<open>What the handler does to the outside, in order.\<close>

datatype 'c event =
    Claim IMutex "jsval \<times> jsval \<times> jsval"
  | Resolve GitOpsModuleApi
  | Populate GitOpsModuleApi Arguments
  | ConsoleError error
  | Release 'c

fun is_Release :: "'c event \<Rightarrow> bool" where
  "is_Release (Release c) = True"
| "is_Release e = False"

definition createMutex :: "jsval \<Rightarrow> jsval \<Rightarrow> string \<Rightarrow> Logger \<Rightarrow> IMutex" where
  "createMutex lock tmpDir scope logger =
     (if lock = Str ''pessimistic'' \<or> lock = Str ''p'' then Mutex tmpDir scope logger
      else NoopMutex)"

text \<open>
  The body of \<open>try\<close>: the value of the variable \<open>claim\<close> when the block ends
  (\<open>None\<close> while it is still unassigned), the events, and the error thrown, if any.
\<close>

definition try_block ::
  "'c collaborators \<Rightarrow> Container \<Rightarrow> IMutex \<Rightarrow> Arguments \<Rightarrow> 'c option \<times> 'c event list \<times> error option"
where
  "try_block env c mutex argv =
     (let descr = (jsprop argv ''name'', jsprop argv ''namespace'', jsprop argv ''contentDir'') in
      case mutex_claim env mutex descr of
        Inl err \<Rightarrow> (None, [Claim mutex descr], Some err)
      | Inr claim \<Rightarrow>
          (let service = gitOpsModuleApi c in
           case service_populate env service argv of
             Inl err \<Rightarrow>
               (Some claim, [Claim mutex descr, Resolve service, Populate service argv], Some err)
           | Inr r \<Rightarrow>
               (Some claim, [Claim mutex descr, Resolve service, Populate service argv], None)))"

text \<open>\<open>catch (err) { console.error('Error running populate', err); }\<close>\<close>

definition catch_block :: "error option \<Rightarrow> 'c event list" where
  "catch_block thrown = (case thrown of None \<Rightarrow> [] | Some err \<Rightarrow> [ConsoleError err])"

text \<open>\<open>finally { await claim.release(); }\<close>: with \<open>claim\<close> unassigned the call reads
  a property of \<open>undefined\<close> and throws.\<close>

definition finally_block :: "'c collaborators \<Rightarrow> 'c option \<Rightarrow> 'c event list \<times> (error + unit)" where
  "finally_block env claim =
     (case claim of
        None \<Rightarrow> ([], Inl TypeError)
      | Some cl \<Rightarrow> ([Release cl], claim_release env cl))"

text \<open>
  The handler: the container after the bindings, the events, and how the returned promise
  settles (\<open>Inl\<close> rejected, \<open>Inr\<close> resolved). The error of the \<open>try\<close> block is
  consumed by \<open>catch\<close>; only an error of the \<open>finally\<close> block rejects the promise.
\<close>

definition commonHandler ::
  "'c collaborators \<Rightarrow> Container \<Rightarrow> Arguments \<Rightarrow> Container \<times> 'c event list \<times> (error + unit)"
where
  "commonHandler env c0 argv =
     (let c1 = c0\<lparr>loggerFactory := Some (jsprop argv ''debug'')\<rparr>;
          c2 = (if jsprop argv ''lock'' = Str ''branch'' \<or> jsprop argv ''lock'' = Str ''b''
                then c1\<lparr>gitOpsModuleApi := GitopsModulePRImpl\<rparr> else c1);
          logger = Container_get_Logger c2;
          mutex = createMutex (jsprop argv ''lock'') (jsprop argv ''tmpDir'') ''gitops-module'' logger;
          (claim, tried, thrown) = try_block env c2 mutex argv;
          caught = catch_block thrown;
          (released, settled) = finally_block env claim
      in (c2, tried @ caught @ released, settled))"


section \<open>services/gitops-module/gitops-module.api.ts\<close>

text \<open>
  The string enumeration \<open>GitOpsLayer\<close>. The sources hold two declarations of it. The
  first has the members \<open>infrastructure\<close>, \<open>services\<close>, \<open>applications\<close>; it is the
  one the \<open>gitops-module\<close> command reads (\<open>GitOpsLayer.services\<close>,
  \<open>GitOpsLayer.applications\<close>). The second has the members \<open>infrastructure\<close>,
  \<open>service\<close>, \<open>application\<close>. At run time a member is its string.
\<close>

datatype GitOpsLayer = infrastructure | services | applications

fun GitOpsLayer_value :: "GitOpsLayer \<Rightarrow> string" where
  "GitOpsLayer_value infrastructure = ''infrastructure''"
| "GitOpsLayer_value services = ''services''"
| "GitOpsLayer_value applications = ''applications''"

definition GitOpsLayer_members :: "GitOpsLayer list" where
  "GitOpsLayer_members = [infrastructure, services, applications]"

datatype GitOpsLayer_second = infrastructure_second | service | application

fun GitOpsLayer_second_value :: "GitOpsLayer_second \<Rightarrow> string" where
  "GitOpsLayer_second_value infrastructure_second = ''infrastructure''"
| "GitOpsLayer_second_value service = ''service''"
| "GitOpsLayer_second_value application = ''application''"

definition GitOpsLayer_second_members :: "GitOpsLayer_second list" where
  "GitOpsLayer_second_members = [infrastructure_second, service, application]"

section \<open>commands/gitops-namespace.ts and commands/gitops-module.ts\<close>

text \<open>
  What a builder declares for one option: the keys of the object given to
  \<open>yargs.positional\<close> or \<open>yargs.option\<close>, \<open>None\<close> for a key that is not written.
  The help texts (\<open>describe\<close>, \<open>description\<close>) are left out.
\<close>

record option_spec =
  positional :: bool
  aliases :: "string list"
  otype :: "string option"
  demandOption :: "bool option"
  require :: "bool option"
  conflicts :: "string option"
  choices :: "jsval list option"
  dflt :: "jsval option"

definition yopt :: option_spec where
  "yopt = \<lparr>positional = False, aliases = [], otype = None, demandOption = None, require = None,
          conflicts = None, choices = None, dflt = None\<rparr>"

text \<open>\<open>process.env\<close>: a variable that is not set reads as \<open>undefined\<close>.\<close>

type_synonym process_env = "string \<rightharpoonup> string"

definition env_get :: "process_env \<Rightarrow> string \<Rightarrow> jsval" where
  "env_get env k = (case env k of None \<Rightarrow> Undefined | Some s \<Rightarrow> Str s)"

fun truthy :: "jsval \<Rightarrow> bool" where
  "truthy Undefined = False"
| "truthy (Str s) = (s \<noteq> [])"
| "truthy (Bool b) = b"
| "truthy (Num n) = (n \<noteq> 0)"

text \<open>The operator \<open>||\<close>.\<close>

definition js_or :: "jsval \<Rightarrow> jsval \<Rightarrow> jsval" where
  "js_or a b = (if truthy a then a else b)"

text \<open>
  The builder of \<open>gitops-namespace [name]\<close>, in the order of the source. The results
  of \<open>defaultAutoMerge()\<close> and \<open>defaultRateLimit()\<close> are parameters.
\<close>

definition gitops_namespace_builder ::
  "process_env \<Rightarrow> jsval \<Rightarrow> jsval \<Rightarrow> (string \<times> option_spec) list"
where
  "gitops_namespace_builder env defaultAutoMerge defaultRateLimit =
    [(''name'', yopt\<lparr>positional := True, otype := Some ''string'', demandOption := Some True\<rparr>),
     (''contentDir'', yopt\<lparr>aliases := [''c'', ''content''], otype := Some ''string'',
        demandOption := Some False\<rparr>),
     (''namespace'', yopt\<lparr>aliases := [''n''], otype := Some ''string'', demandOption := Some False,
        dflt := Some (Str ''default'')\<rparr>),
     (''gitopsConfigFile'', yopt\<lparr>otype := Some ''string'', conflicts := Some ''bootstrapRepoUrl'',
        demandOption := Some False\<rparr>),
     (''bootstrapRepoUrl'', yopt\<lparr>otype := Some ''string'', conflicts := Some ''gitopsConfigFile'',
        demandOption := Some False\<rparr>),
     (''gitopsCredentialsFile'', yopt\<lparr>otype := Some ''string'', conflicts := Some ''token'',
        demandOption := Some False\<rparr>),
     (''token'', yopt\<lparr>otype := Some ''string'', conflicts := Some ''gitopsCredentialsFile'',
        demandOption := Some False\<rparr>),
     (''applicationPath'', yopt\<lparr>otype := Some ''string'', demandOption := Some False\<rparr>),
     (''branch'', yopt\<lparr>demandOption := Some False\<rparr>),
     (''serverName'', yopt\<lparr>demandOption := Some False\<rparr>),
     (''valueFiles'', yopt\<lparr>demandOption := Some False\<rparr>),
     (''lock'', yopt\<lparr>demandOption := Some False,
        choices := Some [Str ''optimistic'', Str ''pessimistic'', Str ''branch'',
                         Str ''o'', Str ''p'', Str ''b''],
        dflt := Some (js_or (env_get env ''LOCK'') (Str ''branch''))\<rparr>),
     (''autoMerge'', yopt\<lparr>otype := Some ''boolean'', demandOption := Some False,
        dflt := Some defaultAutoMerge\<rparr>),
     (''delete'', yopt\<lparr>aliases := [''d''], otype := Some ''boolean'', demandOption := Some False,
        dflt := Some (Bool False)\<rparr>),
     (''ignoreDiff'', yopt\<lparr>otype := Some ''string'', demandOption := Some False,
        dflt := Some (env_get env ''IGNORE_DIFF'')\<rparr>),
     (''rateLimit'', yopt\<lparr>otype := Some ''boolean'', demandOption := Some False,
        dflt := Some defaultRateLimit\<rparr>),
     (''cascadingDelete'', yopt\<lparr>otype := Some ''boolean'', demandOption := Some False,
        dflt := Some (Bool True)\<rparr>),
     (''tmpDir'', yopt\<lparr>otype := Some ''string'', dflt := Some (Str ''/tmp/gitops-module/''),
        require := Some False\<rparr>),
     (''debug'', yopt\<lparr>otype := Some ''boolean'', require := Some False\<rparr>)]"

text \<open>The builder of \<open>gitops-module [name]\<close>.\<close>

definition gitops_module_builder ::
  "process_env \<Rightarrow> jsval \<Rightarrow> jsval \<Rightarrow> (string \<times> option_spec) list"
where
  "gitops_module_builder env defaultAutoMerge defaultRateLimit =
    [(''name'', yopt\<lparr>positional := True, otype := Some ''string'', demandOption := Some True\<rparr>),
     (''contentDir'', yopt\<lparr>aliases := [''c'', ''content''], otype := Some ''string'',
        demandOption := Some False\<rparr>),
     (''namespace'', yopt\<lparr>aliases := [''n''], otype := Some ''string'', demandOption := Some True\<rparr>),
     (''layer'', yopt\<lparr>aliases := [''l''],
        choices := Some [Str (GitOpsLayer_value infrastructure), Str (GitOpsLayer_value services),
                         Str (GitOpsLayer_value applications)],
        demandOption := Some False\<rparr>),
     (''gitopsConfigFile'', yopt\<lparr>otype := Some ''string'', conflicts := Some ''bootstrapRepoUrl'',
        demandOption := Some False\<rparr>),
     (''bootstrapRepoUrl'', yopt\<lparr>otype := Some ''string'', conflicts := Some ''gitopsConfigFile'',
        demandOption := Some False\<rparr>),
     (''gitopsCredentialsFile'', yopt\<lparr>otype := Some ''string'', conflicts := Some ''token'',
        demandOption := Some False\<rparr>),
     (''token'', yopt\<lparr>otype := Some ''string'', conflicts := Some ''gitopsCredentialsFile'',
        demandOption := Some False\<rparr>),
     (''applicationPath'', yopt\<lparr>otype := Some ''string'', demandOption := Some False\<rparr>),
     (''branch'', yopt\<lparr>demandOption := Some False\<rparr>),
     (''type'', yopt\<lparr>choices := Some [Str ''base'', Str ''operators'', Str ''instances''],
        demandOption := Some False, dflt := Some (Str ''base'')\<rparr>),
     (''serverName'', yopt\<lparr>demandOption := Some False\<rparr>),
     (''valueFiles'', yopt\<lparr>demandOption := Some False\<rparr>),
     (''lock'', yopt\<lparr>demandOption := Some False,
        choices := Some [Str ''optimistic'', Str ''pessimistic'', Str ''branch'',
                         Str ''o'', Str ''p'', Str ''b''],
        dflt := Some (js_or (env_get env ''LOCK'') (Str ''branch''))\<rparr>),
     (''autoMerge'', yopt\<lparr>otype := Some ''boolean'', demandOption := Some False,
        dflt := Some defaultAutoMerge\<rparr>),
     (''delete'', yopt\<lparr>aliases := [''d''], otype := Some ''boolean'', demandOption := Some False,
        dflt := Some (Bool False)\<rparr>),
     (''ignoreDiff'', yopt\<lparr>otype := Some ''string'', demandOption := Some False,
        dflt := Some (env_get env ''IGNORE_DIFF'')\<rparr>),
     (''rateLimit'', yopt\<lparr>otype := Some ''boolean'', demandOption := Some False,
        dflt := Some defaultRateLimit\<rparr>),
     (''cascadingDelete'', yopt\<lparr>otype := Some ''boolean'', demandOption := Some False,
        dflt := Some (Bool True)\<rparr>),
     (''tmpDir'', yopt\<lparr>otype := Some ''string'', dflt := Some (Str ''/tmp/gitops-module''),
        require := Some False\<rparr>),
     (''debug'', yopt\<lparr>otype := Some ''boolean'', require := Some False\<rparr>)]"

text \<open>The option a builder declares under a name.\<close>

definition declared :: "(string \<times> option_spec) list \<Rightarrow> string \<Rightarrow> option_spec option" where
  "declared specs k = map_of specs k"

text \<open>
  The handler of \<open>gitops-namespace\<close> builds \<open>args\<close> with \<open>Object.assign\<close> and awaits
  \<open>commonHandler(args)\<close>; the handler of \<open>gitops-module\<close> awaits \<open>commonHandler(argv)\<close>.
\<close>

definition gitops_namespace_args :: "Arguments \<Rightarrow> Arguments" where
  "gitops_namespace_args argv =
     Object_assign Map.empty
       [argv, [''isNamespace'' \<mapsto> Bool True, ''layer'' \<mapsto> Str ''infrastructure'']]"

definition gitops_namespace_handler ::
  "'c collaborators \<Rightarrow> Container \<Rightarrow> Arguments \<Rightarrow> Container \<times> 'c event list \<times> (error + unit)"
where
  "gitops_namespace_handler env c argv =
     (let args = gitops_namespace_args argv in commonHandler env c args)"

definition gitops_module_handler ::
  "'c collaborators \<Rightarrow> Container \<Rightarrow> Arguments \<Rightarrow> Container \<times> 'c event list \<times> (error + unit)"
where
  "gitops_module_handler env c argv = commonHandler env c argv"

section \<open>Validation of conflicting options\<close>

text \<open>
  Modelled from the spec: the check that rejects conflicting options is done by yargs, the
  argument parser, which is a library and not part of the sources. The spec says that two
  options declared as conflicting, supplied together, are rejected before any network or
  filesystem activity occurs. Here an option is supplied when its value in the parsed
  arguments is not \<open>undefined\<close>; the parser fails on the first declared conflict whose two
  options are both supplied, and only otherwise runs the handler of the command.
\<close>

definition supplied :: "Arguments \<Rightarrow> string \<Rightarrow> bool" where
  "supplied argv k = (jsprop argv k \<noteq> Undefined)"

definition conflicting :: "(string \<times> option_spec) list \<Rightarrow> Arguments \<Rightarrow> (string \<times> string) list" where
  "conflicting specs argv =
     concat (map (\<lambda>(k, s). case conflicts s of
                    None \<Rightarrow> []
                  | Some v \<Rightarrow> if supplied argv k \<and> supplied argv v then [(k, v)] else []) specs)"

definition mutually_exclusive :: "string \<Rightarrow> string \<Rightarrow> error" where
  "mutually_exclusive k v = Thrown (''Arguments '' @ k @ '' and '' @ v @ '' are mutually exclusive'')"

definition yargs_run :: "(string \<times> option_spec) list \<Rightarrow> (Arguments \<Rightarrow> 'r) \<Rightarrow> Arguments \<Rightarrow> error + 'r" where
  "yargs_run specs handler argv =
     (case conflicting specs argv of
        [] \<Rightarrow> Inr (handler argv)
      | (k, v) # rest \<Rightarrow> Inl (mutually_exclusive k v))"

section \<open>services/namespace/namespace.ts\<close>

text \<open>
  The cluster is a state \<open>'st\<close> that the Kubernetes clients read and change. The clients
  (\<open>KubeSecurityContextConstraints\<close>, \<open>KubeConfigMap\<close>, \<open>KubeSecret\<close>,
  \<open>KubeTektonPipeline\<close>) are injected into \<open>NamespaceImpl\<close>; their methods are taken
  as parameters, each resolving with a result and the new state or rejecting.
\<close>

record SecurityContextContraints =
  metadata_name :: string
  users :: "string list"

record 'st KubeSecurityContextConstraints =
  sccs_get :: "'st \<Rightarrow> string \<Rightarrow> error + SecurityContextContraints"
  sccs_update :: "'st \<Rightarrow> string \<Rightarrow> SecurityContextContraints \<Rightarrow> error + 'st"

definition pipelineSA :: "string \<Rightarrow> string" where
  "pipelineSA namespace = ''system:serviceaccount:'' @ namespace @ '':pipeline''"

text \<open>
  \<open>setupTektonPipelineSA\<close>: the new state of the cluster and the updates issued, each
  with the name and the body sent. \<open>users.includes\<close> is membership in the list;
  \<open>users.push\<close> appends to the fetched object, which is then the body of the update.
\<close>

definition setupTektonPipelineSA ::
  "'st KubeSecurityContextConstraints \<Rightarrow> 'st \<Rightarrow> string
     \<Rightarrow> error + ('st \<times> (string \<times> SecurityContextContraints) list)"
where
  "setupTektonPipelineSA sccs st namespace =
     (case sccs_get sccs st ''privileged'' of
        Inl err \<Rightarrow> Inl err
      | Inr privilegedSCC \<Rightarrow>
          (let sa = pipelineSA namespace in
           if sa \<notin> set (users privilegedSCC) then
             (let pushed = privilegedSCC\<lparr>users := users privilegedSCC @ [sa]\<rparr> in
              case sccs_update sccs st (metadata_name pushed) pushed of
                Inl err \<Rightarrow> Inl err
              | Inr st' \<Rightarrow> Inr (st', [(metadata_name pushed, pushed)]))
           else Inr (st, [])))"

text \<open>A cluster that keeps its SecurityContextConstraints by name: \<open>get\<close> rejects for a
  name it does not hold, \<open>update\<close> stores the body under the name.\<close>

definition stored_sccs :: "(string \<rightharpoonup> SecurityContextContraints) KubeSecurityContextConstraints" where
  "stored_sccs =
     \<lparr>sccs_get = (\<lambda>st name. case st name of None \<Rightarrow> Inl (Thrown ''NotFound'') | Some scc \<Rightarrow> Inr scc),
      sccs_update = (\<lambda>st name body. Inr (st(name \<mapsto> body)))\<rparr>"

record QueryString =
  labelSelector :: string

record ListOptions =
  from_namespace :: string
  qs :: "QueryString option"

record ('st, 'r) copiers =
  configMaps_copyAll :: "ListOptions \<Rightarrow> string \<Rightarrow> 'st \<Rightarrow> error + ('r \<times> 'st)"
  secrets_copyAll :: "ListOptions \<Rightarrow> string \<Rightarrow> 'st \<Rightarrow> error + ('r \<times> 'st)"
  tektonPipelines_copyAll :: "ListOptions \<Rightarrow> string \<Rightarrow> 'st \<Rightarrow> error + ('r \<times> 'st)"

text \<open>The three copy methods resolve with \<open>undefined\<close> (\<open>None\<close>) when they return
  early, and otherwise with what \<open>copyAll\<close> resolves with.\<close>

definition returned :: "error + ('r \<times> 'st) \<Rightarrow> error + ('r option \<times> 'st)" where
  "returned res = (case res of Inl err \<Rightarrow> Inl err | Inr (r, st') \<Rightarrow> Inr (Some r, st'))"

definition copyConfigMaps ::
  "('st, 'r) copiers \<Rightarrow> string \<Rightarrow> string \<Rightarrow> 'st \<Rightarrow> error + ('r option \<times> 'st)"
where
  "copyConfigMaps k toNamespace fromNamespace st =
     (if toNamespace = fromNamespace then Inr (None, st)
      else (let q = \<lparr>labelSelector = ''group=catalyst-tools''\<rparr> in
            returned (configMaps_copyAll k \<lparr>from_namespace = fromNamespace, qs = Some q\<rparr>
                        toNamespace st)))"

definition copySecrets ::
  "('st, 'r) copiers \<Rightarrow> string \<Rightarrow> string \<Rightarrow> 'st \<Rightarrow> error + ('r option \<times> 'st)"
where
  "copySecrets k toNamespace fromNamespace st =
     (if toNamespace = fromNamespace then Inr (None, st)
      else (let q = \<lparr>labelSelector = ''group=catalyst-tools''\<rparr> in
            returned (secrets_copyAll k \<lparr>from_namespace = fromNamespace, qs = Some q\<rparr>
                        toNamespace st)))"

definition copyPipelines ::
  "('st, 'r) copiers \<Rightarrow> string \<Rightarrow> string \<Rightarrow> 'st \<Rightarrow> error + ('r option \<times> 'st)"
where
  "copyPipelines k toNamespace fromNamespace st =
     (if toNamespace = fromNamespace then Inr (None, st)
      else returned (tektonPipelines_copyAll k \<lparr>from_namespace = fromNamespace, qs = None\<rparr>
                       toNamespace st))"

section \<open>Example runs\<close>

text \<open>Collaborators, a container and parsed arguments on which the handler is run below.
  With \<open>lock_timeout\<close> the filesystem mutex is not acquired; with \<open>populate_fails\<close>
  the service rejects.\<close>

definition lock_timeout :: "nat collaborators" where
  "lock_timeout =
     \<lparr>mutex_claim = (\<lambda>m d. case m of Mutex t s l \<Rightarrow> Inl (Thrown ''LockTimeoutError'')
                                     | NoopMutex \<Rightarrow> Inr 0),
      claim_release = (\<lambda>cl. Inr ()),
      service_populate = (\<lambda>svc a. Inr ())\<rparr>"

definition populate_fails :: "nat collaborators" where
  "populate_fails =
     \<lparr>mutex_claim = (\<lambda>m d. Inr 0),
      claim_release = (\<lambda>cl. Inr ()),
      service_populate = (\<lambda>svc a. Inl (Thrown ''MaterializationError''))\<rparr>"

definition registered :: Container where
  "registered = \<lparr>loggerFactory = None, gitOpsModuleApi = RegisteredImpl\<rparr>"

definition svc_a :: "string \<Rightarrow> Arguments" where
  "svc_a lock = [''name'' \<mapsto> Str ''svc-a'', ''namespace'' \<mapsto> Str ''default'',
     ''contentDir'' \<mapsto> Str ''/payload'', ''layer'' \<mapsto> Str ''services'',
     ''tmpDir'' \<mapsto> Str ''/tmp/gitops-module'', ''lock'' \<mapsto> Str lock]"

text \<open>Arguments that supply both \<open>gitopsConfigFile\<close> and \<open>bootstrapRepoUrl\<close>.\<close>

definition both_configs :: Arguments where
  "both_configs = [''name'' \<mapsto> Str ''svc-a'', ''namespace'' \<mapsto> Str ''default'',
     ''gitopsConfigFile'' \<mapsto> Str ''gitops.yaml'',
     ''bootstrapRepoUrl'' \<mapsto> Str ''https://github.com/org/bootstrap'']"

text \<open>Clients whose \<open>copyAll\<close> always rejects, and a privileged
  SecurityContextConstraints before and after the pipeline service account of the
  namespace \<open>dev\<close> is added.\<close>

definition rejecting_copiers :: "(nat, string) copiers" where
  "rejecting_copiers =
     \<lparr>configMaps_copyAll = (\<lambda>opts to st. Inl (Thrown ''configMaps.copyAll'')),
      secrets_copyAll = (\<lambda>opts to st. Inl (Thrown ''secrets.copyAll'')),
      tektonPipelines_copyAll = (\<lambda>opts to st. Inl (Thrown ''tektonPipelines.copyAll''))\<rparr>"

definition privileged_scc :: SecurityContextContraints where
  "privileged_scc = \<lparr>metadata_name = ''privileged'', users = [''system:admin'']\<rparr>"

definition privileged_scc_dev :: SecurityContextContraints where
  "privileged_scc_dev =
     \<lparr>metadata_name = ''privileged'',
      users = [''system:admin'', ''system:serviceaccount:dev:pipeline'']\<rparr>"

section \<open>The handler of the GitOps commands\<close>

lemmas handler_defs = commonHandler_def try_block_def catch_block_def finally_block_def
  createMutex_def Container_get_Logger_def jsprop_def

lemmas handler_steps = commonHandler_def try_block_def catch_block_def finally_block_def
  Container_get_Logger_def Let_def

text \<open>The three ways through \<open>commonHandler\<close>: the claim rejects, \<open>populate\<close>
  rejects, \<open>populate\<close> resolves.\<close>

lemma commonHandler_paths:
  "commonHandler env c argv =
     (let service = (if jsprop argv ''lock'' = Str ''branch'' \<or> jsprop argv ''lock'' = Str ''b''
                     then GitopsModulePRImpl else gitOpsModuleApi c);
          mutex = createMutex (jsprop argv ''lock'') (jsprop argv ''tmpDir'') ''gitops-module''
                    (VerboseLogger (jsprop argv ''debug''));
          descr = (jsprop argv ''name'', jsprop argv ''namespace'', jsprop argv ''contentDir'')
      in (c\<lparr>loggerFactory := Some (jsprop argv ''debug''), gitOpsModuleApi := service\<rparr>,
          case mutex_claim env mutex descr of
            Inl err \<Rightarrow> ([Claim mutex descr, ConsoleError err], Inl TypeError)
          | Inr cl \<Rightarrow>
              (case service_populate env service argv of
                 Inl err \<Rightarrow>
                   ([Claim mutex descr, Resolve service, Populate service argv,
                     ConsoleError err, Release cl], claim_release env cl)
               | Inr r \<Rightarrow>
                   ([Claim mutex descr, Resolve service, Populate service argv, Release cl],
                    claim_release env cl))))"
  by (simp add: handler_steps split: sum.splits)

text \<open>When the claim resolves, \<open>release\<close> is called exactly once, on the claimed mutex,
  whether \<open>populate\<close> resolves or rejects.\<close>

lemma commonHandler_releases_once:
  assumes "mutex_claim env
             (createMutex (jsprop argv ''lock'') (jsprop argv ''tmpDir'') ''gitops-module''
                (VerboseLogger (jsprop argv ''debug'')))
             (jsprop argv ''name'', jsprop argv ''namespace'', jsprop argv ''contentDir'') = Inr cl"
  shows "filter is_Release (fst (snd (commonHandler env c argv))) = [Release cl]"
  using assms by (simp add: commonHandler_paths Let_def split: sum.splits)

text \<open>When the claim rejects, nothing is released and the promise rejects with the
  \<open>TypeError\<close> of the \<open>finally\<close> block, whatever the error of the claim was.\<close>

lemma commonHandler_claim_rejects:
  assumes "mutex_claim env
             (createMutex (jsprop argv ''lock'') (jsprop argv ''tmpDir'') ''gitops-module''
                (VerboseLogger (jsprop argv ''debug'')))
             (jsprop argv ''name'', jsprop argv ''namespace'', jsprop argv ''contentDir'') = Inl err"
  shows "snd (snd (commonHandler env c argv)) = Inl TypeError
         \<and> filter is_Release (fst (snd (commonHandler env c argv))) = []"
  using assms by (simp add: commonHandler_paths Let_def split: sum.splits)

text \<open>
  C1. The claim says that when \<open>mutex.claim\<close> fails the handler completes with a failed
  result and the release step is a harmless no-op rather than a new error. Run with the
  pessimistic lock and a claim that times out, the handler logs the timeout, then its
  \<open>finally\<close> block calls \<open>release\<close> on the unassigned \<open>claim\<close>: the promise rejects
  with a \<open>TypeError\<close>, a new error, and not with the timeout.
\<close>

theorem commonHandler_claim_timeout_TypeError:
  "commonHandler lock_timeout registered (svc_a ''pessimistic'') =
     (\<lparr>loggerFactory = Some Undefined, gitOpsModuleApi = RegisteredImpl\<rparr>,
      [Claim (Mutex (Str ''/tmp/gitops-module'') ''gitops-module'' (VerboseLogger Undefined))
         (Str ''svc-a'', Str ''default'', Str ''/payload''),
       ConsoleError (Thrown ''LockTimeoutError'')],
      Inl TypeError)"
  by (simp add: handler_defs lock_timeout_def registered_def svc_a_def)

text \<open>
  C2, as stated, fails: the promise returned by \<open>commonHandler\<close> does not reject when
  \<open>populate\<close> rejects. Here \<open>populate\<close> rejects with a \<open>MaterializationError\<close> and the
  promise resolves.
\<close>

theorem commonHandler_populate_error_not_surfaced:
  "service_populate populate_fails RegisteredImpl (svc_a ''optimistic'')
     = Inl (Thrown ''MaterializationError'')
   \<and> snd (snd (commonHandler populate_fails registered (svc_a ''optimistic''))) = Inr ()"
  by (simp add: handler_defs populate_fails_def registered_def svc_a_def)

text \<open>
  C2, amended. When the claim resolves and \<open>populate\<close> rejects with an error, the handler
  catches the error, logs it with \<open>console.error\<close>, then releases the claimed mutex, once
  and after the log; the promise it returns settles as \<open>release\<close> does, so it resolves
  when \<open>release\<close> resolves, and the error of \<open>populate\<close> is not passed to the caller.
\<close>

theorem commonHandler_populate_error_logged:
  assumes "mutex_claim env
             (createMutex (jsprop argv ''lock'') (jsprop argv ''tmpDir'') ''gitops-module''
                (VerboseLogger (jsprop argv ''debug'')))
             (jsprop argv ''name'', jsprop argv ''namespace'', jsprop argv ''contentDir'') = Inr cl"
      and "service_populate env
             (if jsprop argv ''lock'' = Str ''branch'' \<or> jsprop argv ''lock'' = Str ''b''
              then GitopsModulePRImpl else gitOpsModuleApi c) argv = Inl err"
  shows "\<exists>evs. fst (snd (commonHandler env c argv)) = evs @ [ConsoleError err, Release cl]
           \<and> filter is_Release evs = []
           \<and> snd (snd (commonHandler env c argv)) = claim_release env cl"
  using assms by (simp add: commonHandler_paths Let_def split: sum.splits)

theorem commonHandler_populate_error_logged_witness:
  "mutex_claim populate_fails NoopMutex (Str ''svc-a'', Str ''default'', Str ''/payload'') = Inr 0
   \<and> service_populate populate_fails RegisteredImpl (svc_a ''optimistic'')
        = Inl (Thrown ''MaterializationError'')
   \<and> fst (snd (commonHandler populate_fails registered (svc_a ''optimistic''))) =
     [Claim NoopMutex (Str ''svc-a'', Str ''default'', Str ''/payload''),
      Resolve RegisteredImpl, Populate RegisteredImpl (svc_a ''optimistic''),
      ConsoleError (Thrown ''MaterializationError''), Release 0]
   \<and> snd (snd (commonHandler populate_fails registered (svc_a ''optimistic''))) = Inr ()"
  using commonHandler_populate_error_logged [of populate_fails "svc_a ''optimistic''" 0 registered
      "Thrown ''MaterializationError''"]
  by (simp add: handler_defs populate_fails_def registered_def svc_a_def)

text \<open>
  C3. \<open>createMutex\<close> returns the filesystem \<open>Mutex\<close> exactly when \<open>lock\<close> is
  \<open>'pessimistic'\<close> or \<open>'p'\<close> and the \<open>NoopMutex\<close> for every other value, among them
  \<open>'optimistic'\<close>, \<open>'o'\<close>, \<open>'branch'\<close> and \<open>'b'\<close>. When \<open>lock\<close> is \<open>'branch'\<close>
  or \<open>'b'\<close> the handler binds \<open>GitopsModulePRImpl\<close> to \<open>GitOpsModuleApi\<close>, and otherwise
  leaves the binding as it was; the service it resolves is the one bound by then.
\<close>

theorem createMutex_dispatch:
  "(createMutex lock tmpDir scope logger = Mutex tmpDir scope logger)
      = (lock = Str ''pessimistic'' \<or> lock = Str ''p'')
   \<and> (createMutex lock tmpDir scope logger = NoopMutex)
      = (lock \<noteq> Str ''pessimistic'' \<and> lock \<noteq> Str ''p'')
   \<and> createMutex (Str ''optimistic'') tmpDir scope logger = NoopMutex
   \<and> createMutex (Str ''o'') tmpDir scope logger = NoopMutex
   \<and> createMutex (Str ''branch'') tmpDir scope logger = NoopMutex
   \<and> createMutex (Str ''b'') tmpDir scope logger = NoopMutex
   \<and> gitOpsModuleApi (fst (commonHandler env c argv))
      = (if jsprop argv ''lock'' = Str ''branch'' \<or> jsprop argv ''lock'' = Str ''b''
         then GitopsModulePRImpl else gitOpsModuleApi c)
   \<and> (\<forall>svc. Resolve svc \<in> set (fst (snd (commonHandler env c argv)))
         \<longrightarrow> svc = gitOpsModuleApi (fst (commonHandler env c argv)))"
  by (auto simp: commonHandler_paths createMutex_def Let_def split: sum.splits)

theorem createMutex_dispatch_witness:
  "createMutex (Str ''p'') (Str ''/tmp/gitops-module'') ''gitops-module'' (VerboseLogger Undefined)
     = Mutex (Str ''/tmp/gitops-module'') ''gitops-module'' (VerboseLogger Undefined)
   \<and> createMutex (Str ''branch'') (Str ''/tmp/gitops-module'') ''gitops-module''
        (VerboseLogger Undefined) = NoopMutex
   \<and> Resolve GitopsModulePRImpl
        \<in> set (fst (snd (commonHandler populate_fails registered (svc_a ''branch''))))
   \<and> gitOpsModuleApi (fst (commonHandler populate_fails registered (svc_a ''branch'')))
        = GitopsModulePRImpl"
  using createMutex_dispatch [of "Str ''p''" "Str ''/tmp/gitops-module''" "''gitops-module''"
      "VerboseLogger Undefined" populate_fails registered "svc_a ''branch''"]
    createMutex_dispatch [of "Str ''branch''" "Str ''/tmp/gitops-module''" "''gitops-module''"
      "VerboseLogger Undefined" populate_fails registered "svc_a ''branch''"]
  by (simp add: handler_defs populate_fails_def registered_def svc_a_def)

section \<open>The builders of the GitOps commands\<close>

lemmas builder_defs = gitops_namespace_builder_def gitops_module_builder_def declared_def yopt_def

text \<open>
  C4, as stated, fails for the second declaration of \<open>GitOpsLayer\<close>: its member
  \<open>service\<close> has the value \<open>'service'\<close>, which is none of \<open>'infrastructure'\<close>,
  \<open>'services'\<close>, \<open>'applications'\<close>.
\<close>

theorem GitOpsLayer_second_service:
  "service \<in> set GitOpsLayer_second_members
   \<and> GitOpsLayer_second_value service \<notin> {''infrastructure'', ''services'', ''applications''}"
  by (simp add: GitOpsLayer_second_members_def)

text \<open>
  C4, amended. The declaration of \<open>GitOpsLayer\<close> that the \<open>gitops-module\<close> command reads
  has exactly the three members \<open>infrastructure\<close>, \<open>services\<close>, \<open>applications\<close>, with
  the values \<open>'infrastructure'\<close>, \<open>'services'\<close>, \<open>'applications'\<close>, and the choices of
  the command's \<open>layer\<close> option are exactly these members, in this order. The second
  declaration has exactly the three members \<open>infrastructure\<close>, \<open>service\<close>,
  \<open>application\<close>, with the values \<open>'infrastructure'\<close>, \<open>'service'\<close>, \<open>'application'\<close>.
\<close>

theorem GitOpsLayer_values:
  "map GitOpsLayer_value GitOpsLayer_members = [''infrastructure'', ''services'', ''applications'']
   \<and> (\<forall>l. l \<in> set GitOpsLayer_members)
   \<and> map_option choices (declared (gitops_module_builder env autoMerge rateLimit) ''layer'')
       = Some (Some (map (\<lambda>l. Str (GitOpsLayer_value l)) GitOpsLayer_members))
   \<and> map_option choices (declared (gitops_module_builder env autoMerge rateLimit) ''layer'')
       = Some (Some [Str ''infrastructure'', Str ''services'', Str ''applications''])
   \<and> map GitOpsLayer_second_value GitOpsLayer_second_members
       = [''infrastructure'', ''service'', ''application'']
   \<and> (\<forall>l. l \<in> set GitOpsLayer_second_members)"
proof -
  have all1: "\<forall>l. l \<in> set GitOpsLayer_members"
    by (simp add: GitOpsLayer_members_def) (metis GitOpsLayer.exhaust)
  have all2: "\<forall>l. l \<in> set GitOpsLayer_second_members"
    by (simp add: GitOpsLayer_second_members_def) (metis GitOpsLayer_second.exhaust)
  have ch: "map_option choices (declared (gitops_module_builder env autoMerge rateLimit) ''layer'')
       = Some (Some [Str ''infrastructure'', Str ''services'', Str ''applications''])"
    by (simp add: builder_defs)
  show ?thesis
    using all1 all2 ch
    by (simp add: GitOpsLayer_members_def GitOpsLayer_second_members_def)
qed

theorem GitOpsLayer_values_witness:
  "map_option choices (declared (gitops_module_builder Map.empty (Bool False) (Bool False)) ''layer'')
     = Some (Some [Str ''infrastructure'', Str ''services'', Str ''applications''])
   \<and> services \<in> set GitOpsLayer_members
   \<and> application \<in> set GitOpsLayer_second_members"
  using GitOpsLayer_values [of Map.empty "Bool False" "Bool False"]
  by simp

text \<open>The conflicts the parser finds with either builder: the two declared pairs, each
  found from both of its sides.\<close>

lemma conflicting_namespace:
  "conflicting (gitops_namespace_builder env am rl) argv =
     (if supplied argv ''gitopsConfigFile'' \<and> supplied argv ''bootstrapRepoUrl''
      then [(''gitopsConfigFile'', ''bootstrapRepoUrl''), (''bootstrapRepoUrl'', ''gitopsConfigFile'')]
      else [])
     @ (if supplied argv ''gitopsCredentialsFile'' \<and> supplied argv ''token''
        then [(''gitopsCredentialsFile'', ''token''), (''token'', ''gitopsCredentialsFile'')]
        else [])"
  by (simp add: conflicting_def gitops_namespace_builder_def yopt_def)

lemma conflicting_module:
  "conflicting (gitops_module_builder env am rl) argv =
     (if supplied argv ''gitopsConfigFile'' \<and> supplied argv ''bootstrapRepoUrl''
      then [(''gitopsConfigFile'', ''bootstrapRepoUrl''), (''bootstrapRepoUrl'', ''gitopsConfigFile'')]
      else [])
     @ (if supplied argv ''gitopsCredentialsFile'' \<and> supplied argv ''token''
        then [(''gitopsCredentialsFile'', ''token''), (''token'', ''gitopsCredentialsFile'')]
        else [])"
  by (simp add: conflicting_def gitops_module_builder_def yopt_def)

text \<open>
  C5. Both builders declare \<open>gitopsConfigFile\<close> and \<open>bootstrapRepoUrl\<close> as conflicting
  with each other, and \<open>gitopsCredentialsFile\<close> and \<open>token\<close> as conflicting with each
  other. With either builder, arguments that supply both options of such a pair are
  rejected by the parser with the error naming a conflicting pair, whatever the handler
  is: the handler is not run. Arguments that supply neither pair in full reach the
  handler.
\<close>

theorem conflicting_options_rejected:
  assumes "specs = gitops_namespace_builder env autoMerge rateLimit
           \<or> specs = gitops_module_builder env autoMerge rateLimit"
  shows "map_option conflicts (declared specs ''gitopsConfigFile'') = Some (Some ''bootstrapRepoUrl'')
       \<and> map_option conflicts (declared specs ''bootstrapRepoUrl'') = Some (Some ''gitopsConfigFile'')
       \<and> map_option conflicts (declared specs ''gitopsCredentialsFile'') = Some (Some ''token'')
       \<and> map_option conflicts (declared specs ''token'') = Some (Some ''gitopsCredentialsFile'')
       \<and> (supplied argv ''gitopsConfigFile'' \<and> supplied argv ''bootstrapRepoUrl''
            \<longrightarrow> yargs_run specs handler argv
                  = Inl (mutually_exclusive ''gitopsConfigFile'' ''bootstrapRepoUrl''))
       \<and> (supplied argv ''gitopsCredentialsFile'' \<and> supplied argv ''token''
            \<longrightarrow> yargs_run specs handler argv
                    = Inl (mutually_exclusive ''gitopsConfigFile'' ''bootstrapRepoUrl'')
                \<or> yargs_run specs handler argv
                    = Inl (mutually_exclusive ''gitopsCredentialsFile'' ''token''))
       \<and> (\<not> (supplied argv ''gitopsConfigFile'' \<and> supplied argv ''bootstrapRepoUrl'')
          \<and> \<not> (supplied argv ''gitopsCredentialsFile'' \<and> supplied argv ''token'')
            \<longrightarrow> yargs_run specs handler argv = Inr (handler argv))"
proof -
  have decl: "map_option conflicts (declared specs ''gitopsConfigFile'') = Some (Some ''bootstrapRepoUrl'')
       \<and> map_option conflicts (declared specs ''bootstrapRepoUrl'') = Some (Some ''gitopsConfigFile'')
       \<and> map_option conflicts (declared specs ''gitopsCredentialsFile'') = Some (Some ''token'')
       \<and> map_option conflicts (declared specs ''token'') = Some (Some ''gitopsCredentialsFile'')"
    using assms by (auto simp: builder_defs)
  have run: "conflicting specs argv =
     (if supplied argv ''gitopsConfigFile'' \<and> supplied argv ''bootstrapRepoUrl''
      then [(''gitopsConfigFile'', ''bootstrapRepoUrl''), (''bootstrapRepoUrl'', ''gitopsConfigFile'')]
      else [])
     @ (if supplied argv ''gitopsCredentialsFile'' \<and> supplied argv ''token''
        then [(''gitopsCredentialsFile'', ''token''), (''token'', ''gitopsCredentialsFile'')]
        else [])"
    using assms conflicting_namespace conflicting_module by metis
  show ?thesis
    using decl by (auto simp: yargs_run_def run)
qed

theorem conflicting_options_rejected_witness:
  "supplied both_configs ''gitopsConfigFile'' \<and> supplied both_configs ''bootstrapRepoUrl''
   \<and> yargs_run (gitops_module_builder Map.empty (Bool False) (Bool False))
        (gitops_module_handler populate_fails registered) both_configs
      = Inl (mutually_exclusive ''gitopsConfigFile'' ''bootstrapRepoUrl'')
   \<and> yargs_run (gitops_namespace_builder Map.empty (Bool False) (Bool False))
        (gitops_namespace_handler populate_fails registered) both_configs
      = Inl (mutually_exclusive ''gitopsConfigFile'' ''bootstrapRepoUrl'')"
  using conflicting_options_rejected [of "gitops_module_builder Map.empty (Bool False) (Bool False)"
      Map.empty "Bool False" "Bool False" both_configs
      "gitops_module_handler populate_fails registered"]
    conflicting_options_rejected [of "gitops_namespace_builder Map.empty (Bool False) (Bool False)"
      Map.empty "Bool False" "Bool False" both_configs
      "gitops_namespace_handler populate_fails registered"]
  by (simp add: supplied_def jsprop_def both_configs_def)

text \<open>
  C6. In both builders the choices of the \<open>lock\<close> option are exactly \<open>optimistic\<close>,
  \<open>pessimistic\<close>, \<open>branch\<close>, \<open>o\<close>, \<open>p\<close>, \<open>b\<close>, and its default is the value of the
  environment variable \<open>LOCK\<close> when that is set and not empty, and \<open>'branch'\<close> otherwise.
\<close>

theorem lock_option_choices_default:
  "map_option choices (declared (gitops_namespace_builder env autoMerge rateLimit) ''lock'')
     = Some (Some [Str ''optimistic'', Str ''pessimistic'', Str ''branch'',
                   Str ''o'', Str ''p'', Str ''b''])
   \<and> map_option choices (declared (gitops_module_builder env autoMerge rateLimit) ''lock'')
     = Some (Some [Str ''optimistic'', Str ''pessimistic'', Str ''branch'',
                   Str ''o'', Str ''p'', Str ''b''])
   \<and> map_option dflt (declared (gitops_namespace_builder env autoMerge rateLimit) ''lock'')
     = Some (Some (case env ''LOCK'' of None \<Rightarrow> Str ''branch''
                   | Some s \<Rightarrow> if s = [] then Str ''branch'' else Str s))
   \<and> map_option dflt (declared (gitops_module_builder env autoMerge rateLimit) ''lock'')
     = Some (Some (case env ''LOCK'' of None \<Rightarrow> Str ''branch''
                   | Some s \<Rightarrow> if s = [] then Str ''branch'' else Str s))"
  by (simp add: builder_defs js_or_def env_get_def split: option.splits)

theorem lock_option_choices_default_witness:
  "map_option dflt (declared (gitops_namespace_builder [''LOCK'' \<mapsto> ''pessimistic'']
       (Bool False) (Bool False)) ''lock'') = Some (Some (Str ''pessimistic''))
   \<and> map_option dflt (declared (gitops_module_builder [''LOCK'' \<mapsto> ''pessimistic'']
       (Bool False) (Bool False)) ''lock'') = Some (Some (Str ''pessimistic''))
   \<and> map_option dflt (declared (gitops_module_builder [''LOCK'' \<mapsto> []]
       (Bool False) (Bool False)) ''lock'') = Some (Some (Str ''branch''))
   \<and> map_option dflt (declared (gitops_namespace_builder Map.empty
       (Bool False) (Bool False)) ''lock'') = Some (Some (Str ''branch''))"
  using lock_option_choices_default [of "[''LOCK'' \<mapsto> ''pessimistic'']" "Bool False" "Bool False"]
    lock_option_choices_default [of "[''LOCK'' \<mapsto> []]" "Bool False" "Bool False"]
    lock_option_choices_default [of Map.empty "Bool False" "Bool False"]
  by simp

text \<open>
  C7, as stated, fails for \<open>gitops-module\<close>: the default of its \<open>tmpDir\<close> option is not
  the string \<open>'/tmp/gitops-module/'\<close>.
\<close>

theorem gitops_module_tmpDir_default:
  "map_option dflt (declared (gitops_module_builder Map.empty (Bool False) (Bool False)) ''tmpDir'')
     \<noteq> Some (Some (Str ''/tmp/gitops-module/''))"
  by (simp add: builder_defs)

text \<open>
  C7, amended. The \<open>tmpDir\<close> option defaults to the string \<open>'/tmp/gitops-module/'\<close> for
  the \<open>gitops-namespace\<close> command and to the string \<open>'/tmp/gitops-module'\<close>, the same
  directory written without the final slash, for the \<open>gitops-module\<close> command.
\<close>

theorem tmpDir_defaults:
  "map_option dflt (declared (gitops_namespace_builder env autoMerge rateLimit) ''tmpDir'')
     = Some (Some (Str ''/tmp/gitops-module/''))
   \<and> map_option dflt (declared (gitops_module_builder env autoMerge rateLimit) ''tmpDir'')
     = Some (Some (Str ''/tmp/gitops-module''))"
  by (simp add: builder_defs)

theorem tmpDir_defaults_witness:
  "map_option dflt (declared (gitops_namespace_builder [''LOCK'' \<mapsto> ''p'']
       (Bool True) (Bool False)) ''tmpDir'') = Some (Some (Str ''/tmp/gitops-module/''))
   \<and> map_option dflt (declared (gitops_module_builder [''LOCK'' \<mapsto> ''p'']
       (Bool True) (Bool False)) ''tmpDir'') = Some (Some (Str ''/tmp/gitops-module''))"
  using tmpDir_defaults [of "[''LOCK'' \<mapsto> ''p'']" "Bool True" "Bool False"]
  by simp

text \<open>
  C8. The handler of \<open>gitops-namespace\<close> calls \<open>commonHandler\<close> with an object in which
  \<open>isNamespace\<close> is \<open>true\<close> and \<open>layer\<close> is \<open>'infrastructure'\<close>, whatever the parsed
  arguments held for the two, and in which every other property is that of the parsed
  arguments.
\<close>

theorem gitops_namespace_handler_args:
  "gitops_namespace_handler env c argv = commonHandler env c (gitops_namespace_args argv)
   \<and> gitops_namespace_args argv ''isNamespace'' = Some (Bool True)
   \<and> gitops_namespace_args argv ''layer'' = Some (Str ''infrastructure'')
   \<and> (\<forall>k. k \<noteq> ''isNamespace'' \<and> k \<noteq> ''layer'' \<longrightarrow> gitops_namespace_args argv k = argv k)"
  by (simp add: gitops_namespace_handler_def gitops_namespace_args_def Object_assign_def map_add_def)

theorem gitops_namespace_handler_args_witness:
  "svc_a ''branch'' ''layer'' = Some (Str ''services'')
   \<and> gitops_namespace_args (svc_a ''branch'') ''layer'' = Some (Str ''infrastructure'')
   \<and> gitops_namespace_args (svc_a ''branch'') ''isNamespace'' = Some (Bool True)
   \<and> gitops_namespace_args (svc_a ''branch'') ''name'' = Some (Str ''svc-a'')
   \<and> gitops_namespace_args (svc_a ''branch'') ''lock'' = Some (Str ''branch'')
   \<and> gitops_namespace_args (svc_a ''branch'') ''debug'' = None"
  using gitops_namespace_handler_args [of populate_fails registered "svc_a ''branch''"]
  by (simp add: svc_a_def)

section \<open>The namespace service\<close>

text \<open>
  C9. The user that \<open>setupTektonPipelineSA\<close> looks for and adds is the string
  \<open>system:serviceaccount:{namespace}:pipeline\<close>. Let \<open>get('privileged')\<close> resolve with
  an SCC, and, when that user is not among its users, let the update resolve and a later
  \<open>get\<close> resolve with the body that was sent. Then \<open>setupTektonPipelineSA\<close> issues no
  update when the user is already present, and otherwise exactly one, under the name of
  the SCC, whose body has the user appended to the users; a second call on the resulting
  cluster with the same namespace issues no update and leaves it as it is. The user occurs
  once among the users when it was absent and as often as before otherwise, and users
  without duplicates stay so.
\<close>

theorem setupTektonPipelineSA_idempotent:
  assumes account: "sa = ''system:serviceaccount:'' @ namespace @ '':pipeline''"
      and fetched: "sccs_get sccs st ''privileged'' = Inr scc"
      and updated: "sa \<notin> set (users scc) \<Longrightarrow>
             sccs_update sccs st (metadata_name scc) (scc\<lparr>users := users scc @ [sa]\<rparr>) = Inr st1"
      and refetched: "sa \<notin> set (users scc) \<Longrightarrow>
             sccs_get sccs st1 ''privileged'' = Inr (scc\<lparr>users := users scc @ [sa]\<rparr>)"
  shows "pipelineSA namespace = sa
       \<and> setupTektonPipelineSA sccs st namespace =
           (if sa \<in> set (users scc) then Inr (st, [])
            else Inr (st1, [(metadata_name scc, scc\<lparr>users := users scc @ [sa]\<rparr>)]))
       \<and> (\<forall>st' ups. setupTektonPipelineSA sccs st namespace = Inr (st', ups) \<longrightarrow>
             setupTektonPipelineSA sccs st' namespace = Inr (st', [])
             \<and> (\<exists>scc'. sccs_get sccs st' ''privileged'' = Inr scc'
                  \<and> users scc' = (if sa \<in> set (users scc) then users scc
                                   else users scc @ [sa])
                  \<and> count_list (users scc') sa
                      = (if sa \<in> set (users scc) then count_list (users scc) sa else 1)
                  \<and> (distinct (users scc) \<longrightarrow> distinct (users scc'))))"
proof (cases "sa \<in> set (users scc)")
  case True
  have name: "pipelineSA namespace = sa"
    using account by (simp add: pipelineSA_def)
  show ?thesis
    using True fetched name by (simp add: setupTektonPipelineSA_def Let_def)
next
  case False
  have name: "pipelineSA namespace = sa"
    using account by (simp add: pipelineSA_def)
  have first: "setupTektonPipelineSA sccs st namespace =
      Inr (st1, [(metadata_name scc, scc\<lparr>users := users scc @ [sa]\<rparr>)])"
    using False fetched updated[OF False] name by (simp add: setupTektonPipelineSA_def Let_def)
  have second: "setupTektonPipelineSA sccs st1 namespace = Inr (st1, [])"
    using refetched[OF False] name by (simp add: setupTektonPipelineSA_def Let_def)
  have cnt: "count_list (users scc) sa = 0"
    using False by (simp add: count_list_0_iff)
  show ?thesis
    using False first second refetched[OF False] cnt name by simp
qed

theorem setupTektonPipelineSA_idempotent_witness:
  "sccs_get stored_sccs [''privileged'' \<mapsto> privileged_scc] ''privileged'' = Inr privileged_scc
   \<and> ''system:serviceaccount:dev:pipeline'' \<notin> set (users privileged_scc)
   \<and> setupTektonPipelineSA stored_sccs [''privileged'' \<mapsto> privileged_scc] ''dev''
     = Inr ([''privileged'' \<mapsto> privileged_scc_dev], [(''privileged'', privileged_scc_dev)])
   \<and> users privileged_scc_dev = [''system:admin'', ''system:serviceaccount:dev:pipeline'']
   \<and> setupTektonPipelineSA stored_sccs [''privileged'' \<mapsto> privileged_scc_dev] ''dev''
     = Inr ([''privileged'' \<mapsto> privileged_scc_dev], [])
   \<and> setupTektonPipelineSA stored_sccs [''privileged'' \<mapsto> privileged_scc_dev] ''tools''
     = Inr ([''privileged'' \<mapsto> privileged_scc_dev
               \<lparr>users := [''system:admin'', ''system:serviceaccount:dev:pipeline'',
                          ''system:serviceaccount:tools:pipeline'']\<rparr>],
            [(''privileged'', privileged_scc_dev
               \<lparr>users := [''system:admin'', ''system:serviceaccount:dev:pipeline'',
                          ''system:serviceaccount:tools:pipeline'']\<rparr>)])"
  using setupTektonPipelineSA_idempotent [of "''system:serviceaccount:dev:pipeline''" "''dev''"
      stored_sccs "[''privileged'' \<mapsto> privileged_scc]" privileged_scc
      "[''privileged'' \<mapsto> privileged_scc_dev]"]
    setupTektonPipelineSA_idempotent [of "''system:serviceaccount:tools:pipeline''" "''tools''"
      stored_sccs "[''privileged'' \<mapsto> privileged_scc_dev]" privileged_scc_dev
      "[''privileged'' \<mapsto> privileged_scc_dev
          \<lparr>users := [''system:admin'', ''system:serviceaccount:dev:pipeline'',
                     ''system:serviceaccount:tools:pipeline'']\<rparr>]"]
  by (simp add: stored_sccs_def privileged_scc_def privileged_scc_dev_def)

text \<open>
  C10. For every namespace \<open>n\<close>, \<open>copyConfigMaps(n, n)\<close>, \<open>copySecrets(n, n)\<close> and
  \<open>copyPipelines(n, n)\<close> resolve with \<open>undefined\<close> and leave the cluster as it is,
  whatever the \<open>copyAll\<close> of the clients would do: no copy is invoked.
\<close>

theorem copy_onto_itself:
  "copyConfigMaps k n n st = Inr (None, st)
   \<and> copySecrets k n n st = Inr (None, st)
   \<and> copyPipelines k n n st = Inr (None, st)"
  by (simp add: copyConfigMaps_def copySecrets_def copyPipelines_def)

theorem copy_onto_itself_witness:
  "copyConfigMaps rejecting_copiers ''dev'' ''dev'' 7 = Inr (None, 7)
   \<and> copySecrets rejecting_copiers ''dev'' ''dev'' 7 = Inr (None, 7)
   \<and> copyPipelines rejecting_copiers ''dev'' ''dev'' 7 = Inr (None, 7)
   \<and> copyConfigMaps rejecting_copiers ''dev'' ''tools'' 7 = Inl (Thrown ''configMaps.copyAll'')"
  using copy_onto_itself [of rejecting_copiers "''dev''" 7]
  by (simp add: copyConfigMaps_def rejecting_copiers_def returned_def)

end
